theory Spec2Isabelle
  imports Complex_Main "HOL-Library.Multiset"
begin

section \<open>Numbers\<close>

text \<open>
  A TypeScript \<open>number\<close> that the scheduler computes is modelled by \<open>jsnum\<close>: an exact
  rational, one of the two infinities, or NaN. Rounding of the finite values and the
  sign of zero are not modelled. The numbers a caller supplies (scheduled arrival,
  speed, section length, horizon, headway, delay minutes) are finite and have type
  \<open>rat\<close>; every number derived from them is a \<open>jsnum\<close>, because a division by a
  zero speed yields an infinity or NaN and a read of a missing array element or
  object key yields \<open>undefined\<close>, which arithmetic turns into NaN.
\<close>

datatype jsnum = Fin rat | PInf | NInf | NaN

fun jadd :: "jsnum \<Rightarrow> jsnum \<Rightarrow> jsnum" where
  "jadd (Fin a) (Fin b) = Fin (a + b)"
| "jadd NaN y = NaN"
| "jadd x NaN = NaN"
| "jadd PInf NInf = NaN"
| "jadd NInf PInf = NaN"
| "jadd PInf y = PInf"
| "jadd x PInf = PInf"
| "jadd NInf y = NInf"
| "jadd x NInf = NInf"

fun jneg :: "jsnum \<Rightarrow> jsnum" where
  "jneg (Fin a) = Fin (- a)"
| "jneg PInf = NInf"
| "jneg NInf = PInf"
| "jneg NaN = NaN"

definition jsub :: "jsnum \<Rightarrow> jsnum \<Rightarrow> jsnum" where
  "jsub x y = jadd x (jneg y)"

fun jmul :: "jsnum \<Rightarrow> jsnum \<Rightarrow> jsnum" where
  "jmul (Fin a) (Fin b) = Fin (a * b)"
| "jmul NaN y = NaN"
| "jmul x NaN = NaN"
| "jmul PInf (Fin b) = (if b = 0 then NaN else if 0 < b then PInf else NInf)"
| "jmul NInf (Fin b) = (if b = 0 then NaN else if 0 < b then NInf else PInf)"
| "jmul (Fin a) PInf = (if a = 0 then NaN else if 0 < a then PInf else NInf)"
| "jmul (Fin a) NInf = (if a = 0 then NaN else if 0 < a then NInf else PInf)"
| "jmul PInf PInf = PInf"
| "jmul NInf NInf = PInf"
| "jmul PInf NInf = NInf"
| "jmul NInf PInf = NInf"

text \<open>The quotient of two finite numbers; a zero divisor gives an infinity or NaN.\<close>

definition jdiv :: "rat \<Rightarrow> rat \<Rightarrow> jsnum" where
  "jdiv a b =
     (if b \<noteq> 0 then Fin (a / b)
      else if 0 < a then PInf
      else if a < 0 then NInf
      else NaN)"

fun jle :: "jsnum \<Rightarrow> jsnum \<Rightarrow> bool" where
  "jle (Fin a) (Fin b) = (a \<le> b)"
| "jle NaN y = False"
| "jle x NaN = False"
| "jle NInf y = True"
| "jle x PInf = True"
| "jle PInf y = False"
| "jle x NInf = False"

fun jlt :: "jsnum \<Rightarrow> jsnum \<Rightarrow> bool" where
  "jlt (Fin a) (Fin b) = (a < b)"
| "jlt NaN y = False"
| "jlt x NaN = False"
| "jlt PInf y = False"
| "jlt x NInf = False"
| "jlt NInf y = True"
| "jlt x PInf = True"

text \<open>\<open>Math.max\<close> of two arguments: NaN when either is NaN.\<close>

fun jmax :: "jsnum \<Rightarrow> jsnum \<Rightarrow> jsnum" where
  "jmax NaN y = NaN"
| "jmax x NaN = NaN"
| "jmax x y = (if jle x y then y else x)"

text \<open>Truthiness of a number: \<open>0\<close> and NaN are falsy, as is a missing value.\<close>

fun truthy :: "jsnum \<Rightarrow> bool" where
  "truthy (Fin a) = (a \<noteq> 0)"
| "truthy PInf = True"
| "truthy NInf = True"
| "truthy NaN = False"

fun truthyDur :: "jsnum option \<Rightarrow> bool" where
  "truthyDur None = False"
| "truthyDur (Some d) = truthy d"

section \<open>Data model (types/railway.ts)\<close>

datatype priority = High | Medium | Low

record train =
  idT :: string
  scheduledArrival :: rat
  speed :: rat
  priority :: priority
  lengthT :: rat
  duration :: "jsnum option"

record railwayConfig =
  sectionLength :: rat
  timeHorizon :: rat
  tracks :: int
  maxTrainsPerTrack :: int
  safetyHeadway :: rat

record trainAssignment =
  trainId :: string
  trackId :: nat
  actualArrival :: jsnum
  delay :: jsnum

record schedule =
  assignments :: "trainAssignment list"
  totalDelay :: jsnum
  weightedDelay :: jsnum
  finished :: nat
  utilization :: "nat \<rightharpoonup> jsnum"

datatype disruptionType = Delay | BlockTrack

record disruption =
  dtype :: disruptionType
  dTrainId :: "string option"
  delayMinutes :: "rat option"
  dTrackId :: "int option"

record scheduleComparison =
  before :: schedule
  after :: schedule

fun PRIORITY_WEIGHTS :: "priority \<Rightarrow> rat" where
  "PRIORITY_WEIGHTS High = 3"
| "PRIORITY_WEIGHTS Medium = 2"
| "PRIORITY_WEIGHTS Low = 1"

text \<open>
  \<open>new Array(n)\<close> throws a RangeError for a negative length; reading a property of
  the \<open>undefined\<close> that \<open>find\<close> returns for an unknown id throws a TypeError. The
  track count is an integer; the upper limit of an array's length is not modelled.
\<close>

datatype error = RangeError | TypeError

section \<open>Traversal time and train preparation\<close>

definition computeTraversalTime :: "rat \<Rightarrow> rat \<Rightarrow> jsnum" where
  "computeTraversalTime sectionKm speedKmh = jmul (jdiv sectionKm speedKmh) (Fin 60)"

definition prepareTrainsData :: "train list \<Rightarrow> railwayConfig \<Rightarrow> train list" where
  "prepareTrainsData trains config =
     map (\<lambda>t. t\<lparr>duration := Some (computeTraversalTime (sectionLength config) (speed t))\<rparr>) trains"

section \<open>Schedule metrics\<close>

text \<open>\<open>trains.find(t => t.id === i)\<close>: the first train with the id, if any.\<close>

definition findTrain :: "train list \<Rightarrow> string \<Rightarrow> train option" where
  "findTrain trains i = find (\<lambda>t. idT t = i) trains"

text \<open>The loop that writes \<open>0\<close> under every key \<open>0 .. tracks - 1\<close>.\<close>

definition initUtilization :: "railwayConfig \<Rightarrow> (nat \<rightharpoonup> jsnum)" where
  "initUtilization config = fold (\<lambda>i u. u(i \<mapsto> Fin 0)) [0..<nat (tracks config)] Map.empty"

text \<open>
  One round of the loop over the assignments. \<open>utilization[k] += d\<close> on a key that was
  never written adds to \<open>undefined\<close> and stores NaN.
\<close>

definition metricsStep :: "train list \<Rightarrow> railwayConfig \<Rightarrow> trainAssignment \<Rightarrow> schedule \<Rightarrow> schedule" where
  "metricsStep trains config a s =
     (case findTrain trains (trainId a) of
        None \<Rightarrow> s
      | Some t \<Rightarrow>
          (case duration t of
             None \<Rightarrow> s
           | Some d \<Rightarrow>
               if \<not> truthy d then s
               else s\<lparr>totalDelay := jadd (totalDelay s) (delay a),
                      weightedDelay :=
                        jadd (weightedDelay s) (jmul (delay a) (Fin (PRIORITY_WEIGHTS (priority t)))),
                      finished :=
                        (if jle (jadd (actualArrival a) d) (Fin (timeHorizon config))
                         then finished s + 1 else finished s),
                      utilization :=
                        (utilization s)(trackId a \<mapsto>
                          (case utilization s (trackId a) of
                             None \<Rightarrow> NaN
                           | Some u \<Rightarrow> jadd u d))\<rparr>))"

definition computeScheduleMetrics ::
  "trainAssignment list \<Rightarrow> train list \<Rightarrow> railwayConfig \<Rightarrow> schedule" where
  "computeScheduleMetrics as trains config =
     fold (metricsStep trains config) as
       \<lparr>assignments = as, totalDelay = Fin 0, weightedDelay = Fin 0, finished = 0,
        utilization = initUtilization config\<rparr>"

section \<open>Greedy scheduling\<close>

text \<open>
  The comparator of the sort: priority weight descending, then scheduled arrival
  ascending. \<open>Array.prototype.sort\<close> is stable and this comparator is a total
  preorder, so the sorted array is the stable ordering, which insertion from the
  right computes.
\<close>

definition compareTrains :: "train \<Rightarrow> train \<Rightarrow> rat" where
  "compareTrains a b =
     (let weightDiff = PRIORITY_WEIGHTS (priority b) - PRIORITY_WEIGHTS (priority a)
      in if weightDiff \<noteq> 0 then weightDiff else scheduledArrival a - scheduledArrival b)"

fun insertTrain :: "train \<Rightarrow> train list \<Rightarrow> train list" where
  "insertTrain x [] = [x]"
| "insertTrain x (y # ys) =
     (if compareTrains x y \<le> 0 then x # y # ys else y # insertTrain x ys)"

definition sortTrains :: "train list \<Rightarrow> train list" where
  "sortTrains trains = foldr insertTrain trains []"

text \<open>
  \<open>tracksNextFree[k]\<close> as an argument of \<open>Math.max\<close>: an index past the end reads
  \<open>undefined\<close>, which \<open>Math.max\<close> turns into NaN. A write past the end extends the
  array; the holes it leaves read as \<open>undefined\<close> too.
\<close>

definition nextFreeAt :: "jsnum list \<Rightarrow> nat \<Rightarrow> jsnum" where
  "nextFreeAt nf k = (if k < length nf then nf ! k else NaN)"

definition setNextFree :: "jsnum list \<Rightarrow> nat \<Rightarrow> jsnum \<Rightarrow> jsnum list" where
  "setNextFree nf k v =
     (if k < length nf then nf[k := v] else nf @ replicate (k - length nf) NaN @ [v])"

definition candidateStart :: "train \<Rightarrow> jsnum list \<Rightarrow> nat \<Rightarrow> jsnum" where
  "candidateStart t nf k = jmax (Fin (scheduledArrival t)) (nextFreeAt nf k)"

text \<open>
  The inner loop over the track ids, with the pair \<open>(bestTrack, bestStartTime)\<close> as
  its state; \<open>d\<close> is the train's duration.
\<close>

fun scanTracks ::
  "train \<Rightarrow> jsnum \<Rightarrow> railwayConfig \<Rightarrow> jsnum list \<Rightarrow> nat list \<Rightarrow> nat \<times> jsnum \<Rightarrow> nat \<times> jsnum" where
  "scanTracks t d config nf [] best = best"
| "scanTracks t d config nf (k # ks) (bestTrack, bestStartTime) =
     (let startTime = candidateStart t nf k
      in if jle (jadd startTime d) (Fin (timeHorizon config))
         then (if jlt startTime bestStartTime
               then scanTracks t d config nf ks (k, startTime)
               else scanTracks t d config nf ks (bestTrack, bestStartTime))
         else scanTracks t d config nf ks (bestTrack, bestStartTime))"

definition chooseTrack :: "train \<Rightarrow> jsnum \<Rightarrow> railwayConfig \<Rightarrow> jsnum list \<Rightarrow> nat \<times> jsnum" where
  "chooseTrack t d config nf =
     scanTracks t d config nf [0..<nat (tracks config)] (0, candidateStart t nf 0)"

text \<open>One round of the loop over the sorted trains; the state is
  \<open>(tracksNextFree, assignments)\<close>.\<close>

definition greedyStep ::
  "railwayConfig \<Rightarrow> train \<Rightarrow> jsnum list \<times> trainAssignment list \<Rightarrow> jsnum list \<times> trainAssignment list" where
  "greedyStep config t st =
     (case duration t of
        None \<Rightarrow> st
      | Some d \<Rightarrow>
          if \<not> truthy d then st
          else
            (let (bestTrack, bestStartTime) = chooseTrack t d config (fst st);
                 dl = jmax (Fin 0) (jsub bestStartTime (Fin (scheduledArrival t)))
             in (setNextFree (fst st) bestTrack
                   (jadd (jadd bestStartTime d) (Fin (safetyHeadway config))),
                 snd st @ [\<lparr>trainId = idT t, trackId = bestTrack,
                             actualArrival = bestStartTime, delay = dl\<rparr>])))"

fun greedyLoop ::
  "railwayConfig \<Rightarrow> train list \<Rightarrow> jsnum list \<times> trainAssignment list \<Rightarrow> jsnum list \<times> trainAssignment list" where
  "greedyLoop config [] st = st"
| "greedyLoop config (t # ts) st = greedyLoop config ts (greedyStep config t st)"

definition greedyInit :: "railwayConfig \<Rightarrow> jsnum list \<times> trainAssignment list" where
  "greedyInit config = (replicate (nat (tracks config)) (Fin 0), [])"

definition greedySchedule :: "train list \<Rightarrow> railwayConfig \<Rightarrow> error + schedule" where
  "greedySchedule trains config =
     (if tracks config < 0 then Inl RangeError
      else Inr (computeScheduleMetrics
                  (snd (greedyLoop config (sortTrains trains) (greedyInit config)))
                  trains config))"

section \<open>Local improvement\<close>

definition trySwapTrains ::
  "trainAssignment list \<Rightarrow> trainAssignment \<Rightarrow> trainAssignment \<Rightarrow> train list \<Rightarrow> railwayConfig
     \<Rightarrow> error + trainAssignment list option" where
  "trySwapTrains as assignment1 assignment2 trains config =
     (case findTrain trains (trainId assignment1) of
        None \<Rightarrow> Inl TypeError
      | Some train1 \<Rightarrow>
          (case duration train1 of
             None \<Rightarrow> Inr None
           | Some d1 \<Rightarrow>
               if \<not> truthy d1 then Inr None
               else
                 (case findTrain trains (trainId assignment2) of
                    None \<Rightarrow> Inl TypeError
                  | Some train2 \<Rightarrow>
                      (case duration train2 of
                         None \<Rightarrow> Inr None
                       | Some d2 \<Rightarrow>
                           if \<not> truthy d2 then Inr None
                           else
                             (let newTime1 = jmax (Fin (scheduledArrival train1)) (actualArrival assignment2);
                                  newTime2 = jmax (Fin (scheduledArrival train2)) (actualArrival assignment1)
                              in if jlt newTime2 (jadd (jadd newTime1 d1) (Fin (safetyHeadway config)))
                                    \<or> jlt (Fin (timeHorizon config)) (jadd newTime2 d2)
                                 then Inr None
                                 else Inr (Some (map (\<lambda>a.
                                        if trainId a = trainId assignment1
                                        then a\<lparr>actualArrival := newTime1,
                                               delay := jmax (Fin 0) (jsub newTime1 (Fin (scheduledArrival train1)))\<rparr>
                                        else if trainId a = trainId assignment2
                                        then a\<lparr>actualArrival := newTime2,
                                               delay := jmax (Fin 0) (jsub newTime2 (Fin (scheduledArrival train2)))\<rparr>
                                        else a) as)))))))"

text \<open>
  The comparator \<open>a.actualArrival - b.actualArrival\<close> of the per-track sort. The
  sort reads a NaN result as \<open>0\<close>. On arrivals that are finite or \<open>+Infinity\<close> the
  comparator is a total preorder and the stable insertion below is what every
  conforming sort returns.
\<close>

definition arrivalBefore :: "trainAssignment \<Rightarrow> trainAssignment \<Rightarrow> bool" where
  "arrivalBefore a b =
     (let v = jsub (actualArrival a) (actualArrival b) in v = NaN \<or> jle v (Fin 0))"

fun insertByArrival :: "trainAssignment \<Rightarrow> trainAssignment list \<Rightarrow> trainAssignment list" where
  "insertByArrival x [] = [x]"
| "insertByArrival x (y # ys) =
     (if arrivalBefore x y then x # y # ys else y # insertByArrival x ys)"

definition sortByArrival :: "trainAssignment list \<Rightarrow> trainAssignment list" where
  "sortByArrival as = foldr insertByArrival as []"

text \<open>The local variables of \<open>applyLocalImprovements\<close> that the loops update.\<close>

record improverState =
  assignmentsL :: "trainAssignment list"
  scheduleL :: schedule
  improved :: bool

text \<open>The body of the loop over \<open>i\<close>, for the pair \<open>trackAssignments[i]\<close>,
  \<open>trackAssignments[i + 1]\<close>.\<close>

definition pairStep ::
  "train list \<Rightarrow> railwayConfig \<Rightarrow> improverState \<Rightarrow> trainAssignment \<Rightarrow> trainAssignment
     \<Rightarrow> error + improverState" where
  "pairStep trains config st a1 a2 =
     (case findTrain trains (trainId a1) of
        None \<Rightarrow> Inl TypeError
      | Some train1 \<Rightarrow>
          (case findTrain trains (trainId a2) of
             None \<Rightarrow> Inl TypeError
           | Some train2 \<Rightarrow>
               if PRIORITY_WEIGHTS (priority train1) < PRIORITY_WEIGHTS (priority train2)
               then
                 (case trySwapTrains (assignmentsL st) a1 a2 trains config of
                    Inl e \<Rightarrow> Inl e
                  | Inr None \<Rightarrow> Inr st
                  | Inr (Some newAssignments) \<Rightarrow>
                      (let newSchedule = computeScheduleMetrics newAssignments trains config
                       in if jlt (weightedDelay newSchedule) (weightedDelay (scheduleL st))
                          then Inr \<lparr>assignmentsL = newAssignments, scheduleL = newSchedule,
                                    improved = True\<rparr>
                          else Inr st))
               else Inr st))"

text \<open>
  The loop over \<open>i\<close>: \<open>trackAssignments\<close> was filtered and sorted before the loop and
  is not refreshed when a swap is accepted.
\<close>

fun scanPairs ::
  "train list \<Rightarrow> railwayConfig \<Rightarrow> improverState \<Rightarrow> trainAssignment list \<Rightarrow> error + improverState" where
  "scanPairs trains config st (a1 # a2 # rest) =
     (case pairStep trains config st a1 a2 of
        Inl e \<Rightarrow> Inl e
      | Inr st' \<Rightarrow> scanPairs trains config st' (a2 # rest))"
| "scanPairs trains config st rest = Inr st"

fun scanTrackIds ::
  "train list \<Rightarrow> railwayConfig \<Rightarrow> improverState \<Rightarrow> nat list \<Rightarrow> error + improverState" where
  "scanTrackIds trains config st [] = Inr st"
| "scanTrackIds trains config st (k # ks) =
     (case scanPairs trains config st
             (sortByArrival (filter (\<lambda>a. trackId a = k) (assignmentsL st))) of
        Inl e \<Rightarrow> Inl e
      | Inr st' \<Rightarrow> scanTrackIds trains config st' ks)"

definition maxIterations :: nat where
  "maxIterations = 10"

function improveLoop ::
  "train list \<Rightarrow> railwayConfig \<Rightarrow> improverState \<Rightarrow> nat \<Rightarrow> error + improverState" where
  "improveLoop trains config st iterations =
     (if improved st \<and> iterations < maxIterations
      then (case scanTrackIds trains config (st\<lparr>improved := False\<rparr>) [0..<nat (tracks config)] of
              Inl e \<Rightarrow> Inl e
            | Inr st' \<Rightarrow> improveLoop trains config st' (iterations + 1))
      else Inr st)"
  by pat_completeness auto
termination
  by (relation "measure (\<lambda>(trains, config, st, iterations). maxIterations - iterations)") auto

declare improveLoop.simps [simp del]

definition applyLocalImprovements ::
  "schedule \<Rightarrow> train list \<Rightarrow> railwayConfig \<Rightarrow> error + schedule" where
  "applyLocalImprovements s trains config =
     (case improveLoop trains config
             \<lparr>assignmentsL = assignments s, scheduleL = s, improved = True\<rparr> 0 of
        Inl e \<Rightarrow> Inl e
      | Inr st \<Rightarrow> Inr (scheduleL st))"

definition optimizedSchedule :: "train list \<Rightarrow> railwayConfig \<Rightarrow> error + schedule" where
  "optimizedSchedule trains config =
     (case greedySchedule trains config of
        Inl e \<Rightarrow> Inl e
      | Inr s \<Rightarrow> applyLocalImprovements s trains config)"

section \<open>Disruptions\<close>

definition applyDisruption :: "train list \<Rightarrow> disruption \<Rightarrow> train list" where
  "applyDisruption trains d =
     map (\<lambda>t.
       (case delayMinutes d of
          Some m \<Rightarrow>
            if dtype d = Delay \<and> Some (idT t) = dTrainId d \<and> m \<noteq> 0
            then t\<lparr>scheduledArrival := scheduledArrival t + m\<rparr>
            else t
        | None \<Rightarrow> t)) trains"

definition modifiedConfig :: "railwayConfig \<Rightarrow> disruption \<Rightarrow> railwayConfig" where
  "modifiedConfig config d =
     (if dtype d = BlockTrack \<and> dTrackId d \<noteq> None
      then config\<lparr>tracks := tracks config - 1\<rparr>
      else config)"

definition rescheduleWithDisruption ::
  "train list \<Rightarrow> railwayConfig \<Rightarrow> disruption \<Rightarrow> error + scheduleComparison" where
  "rescheduleWithDisruption trains config d =
     (let beforeTrains = prepareTrainsData trains config
      in case optimizedSchedule beforeTrains config of
           Inl e \<Rightarrow> Inl e
         | Inr beforeSchedule \<Rightarrow>
             (let afterTrains = prepareTrainsData (applyDisruption trains d) config
              in case optimizedSchedule afterTrains (modifiedConfig config d) of
                   Inl e \<Rightarrow> Inl e
                 | Inr afterSchedule \<Rightarrow>
                     Inr \<lparr>before = beforeSchedule, after = afterSchedule\<rparr>))"

section \<open>The dashboard's defaults (components/RailwayDashboard.tsx)\<close>



section \<open>Notions used to state the properties\<close>

text \<open>
  The metrics as the specification words them: sums and counts over exactly the
  assignments whose train is found and has a truthy duration. \<open>jsum\<close> adds from
  \<open>0\<close>, left to right, as the accumulating loop does.
\<close>

definition countedAssignments :: "train list \<Rightarrow> trainAssignment list \<Rightarrow> trainAssignment list" where
  "countedAssignments trains as =
     filter (\<lambda>a. case findTrain trains (trainId a) of
                   None \<Rightarrow> False
                 | Some t \<Rightarrow> truthyDur (duration t)) as"

definition durationOf :: "train list \<Rightarrow> trainAssignment \<Rightarrow> jsnum" where
  "durationOf trains a =
     (case findTrain trains (trainId a) of
        None \<Rightarrow> NaN
      | Some t \<Rightarrow> (case duration t of None \<Rightarrow> NaN | Some d \<Rightarrow> d))"


definition weightOf :: "train list \<Rightarrow> trainAssignment \<Rightarrow> jsnum" where
  "weightOf trains a =
     (case findTrain trains (trainId a) of
        None \<Rightarrow> NaN
      | Some t \<Rightarrow> Fin (PRIORITY_WEIGHTS (priority t)))"

definition jsum :: "jsnum list \<Rightarrow> jsnum" where
  "jsum xs = foldl jadd (Fin 0) xs"

















section \<open>Schedule metrics: the reduction in closed form\<close>

lemma metricsStep_assignments: "assignments (metricsStep trains config a s) = assignments s"
  by (simp add: metricsStep_def split: option.splits)

lemma fold_metricsStep_assignments:
  "assignments (fold (metricsStep trains config) as s) = assignments s"
  by (induction as arbitrary: s) (simp_all add: metricsStep_assignments)

lemma computeScheduleMetrics_assignments:
  "assignments (computeScheduleMetrics as trains config) = as"
  by (simp add: computeScheduleMetrics_def fold_metricsStep_assignments)

lemma fold_metricsStep_totalDelay:
  "totalDelay (fold (metricsStep trains config) as s) =
     foldl jadd (totalDelay s) (map delay (countedAssignments trains as))"
  by (induction as arbitrary: s)
     (simp_all add: metricsStep_def countedAssignments_def split: option.splits)

lemma fold_metricsStep_weightedDelay:
  "weightedDelay (fold (metricsStep trains config) as s) =
     foldl jadd (weightedDelay s)
       (map (\<lambda>a. jmul (delay a) (weightOf trains a)) (countedAssignments trains as))"
  by (induction as arbitrary: s)
     (simp_all add: metricsStep_def countedAssignments_def weightOf_def split: option.splits)

lemma fold_metricsStep_finished:
  "finished (fold (metricsStep trains config) as s) =
     finished s + length (filter (\<lambda>a. jle (jadd (actualArrival a) (durationOf trains a))
                                          (Fin (timeHorizon config)))
                           (countedAssignments trains as))"
  by (induction as arbitrary: s)
     (simp_all add: metricsStep_def countedAssignments_def durationOf_def split: option.splits)

lemma fold_metricsStep_utilization:
  "utilization s k = Some u \<Longrightarrow>
   utilization (fold (metricsStep trains config) as s) k =
     Some (foldl jadd u (map (durationOf trains)
             (filter (\<lambda>a. trackId a = k) (countedAssignments trains as))))"
  by (induction as arbitrary: s u)
     (simp_all add: metricsStep_def countedAssignments_def durationOf_def split: option.splits)

lemma fold_init_key:
  "fold (\<lambda>i u. u(i \<mapsto> v)) xs m k = (if k \<in> set xs then Some v else m k)"
  by (induction xs arbitrary: m) auto

lemma initUtilization_key:
  "initUtilization config k = (if k < nat (tracks config) then Some (Fin 0) else None)"
  by (simp add: initUtilization_def fold_init_key)

text \<open>
  Claim C7. \<open>computeScheduleMetrics\<close> returns the assignments it was given and, over
  exactly the assignments whose train exists and has a truthy duration: the sum of
  the delays as \<open>totalDelay\<close>, the sum of delay times priority weight (3, 2, 1 for
  high, medium, low) as \<open>weightedDelay\<close>, the number of assignments with
  \<open>actualArrival + duration \<le> timeHorizon\<close> as \<open>finished\<close>, and under every track id
  below \<open>tracks\<close> the sum of the durations assigned to that track, which is \<open>0\<close> for
  a track without assignments.
\<close>

theorem computeScheduleMetrics_closed_form:
  "assignments (computeScheduleMetrics as trains config) = as
   \<and> totalDelay (computeScheduleMetrics as trains config) =
       jsum (map delay (countedAssignments trains as))
   \<and> weightedDelay (computeScheduleMetrics as trains config) =
       jsum (map (\<lambda>a. jmul (delay a) (weightOf trains a)) (countedAssignments trains as))
   \<and> finished (computeScheduleMetrics as trains config) =
       length (filter (\<lambda>a. jle (jadd (actualArrival a) (durationOf trains a))
                               (Fin (timeHorizon config)))
                (countedAssignments trains as))
   \<and> (\<forall>k. k < nat (tracks config) \<longrightarrow>
         utilization (computeScheduleMetrics as trains config) k =
           Some (jsum (map (durationOf trains)
                   (filter (\<lambda>a. trackId a = k) (countedAssignments trains as)))))"
  by (simp add: computeScheduleMetrics_def fold_metricsStep_assignments
      fold_metricsStep_totalDelay fold_metricsStep_weightedDelay fold_metricsStep_finished
      fold_metricsStep_utilization initUtilization_key jsum_def)

theorem computeScheduleMetrics_closed_form_witness:
  "utilization
     (computeScheduleMetrics
        [\<lparr>trainId = ''A'', trackId = 0, actualArrival = Fin 0, delay = Fin 0\<rparr>,
         \<lparr>trainId = ''B'', trackId = 0, actualArrival = Fin 13, delay = Fin 8\<rparr>,
         \<lparr>trainId = ''C'', trackId = 1, actualArrival = Fin 175, delay = Fin 1\<rparr>,
         \<lparr>trainId = ''D'', trackId = 1, actualArrival = Fin 1, delay = Fin 1\<rparr>]
        [\<lparr>idT = ''A'', scheduledArrival = 0, speed = 30, priority = High, lengthT = 200,
          duration = Some (Fin 10)\<rparr>,
         \<lparr>idT = ''B'', scheduledArrival = 5, speed = 30, priority = Medium, lengthT = 200,
          duration = Some (Fin 10)\<rparr>,
         \<lparr>idT = ''C'', scheduledArrival = 174, speed = 30, priority = Low, lengthT = 200,
          duration = Some (Fin 10)\<rparr>]
        \<lparr>sectionLength = 5, timeHorizon = 180, tracks = 3, maxTrainsPerTrack = 10,
         safetyHeadway = 3\<rparr>) 2 = Some (Fin 0)
   \<and> (2::nat) < nat 3"
  using computeScheduleMetrics_closed_form
    [of "[\<lparr>trainId = ''A'', trackId = 0, actualArrival = Fin 0, delay = Fin 0\<rparr>,
         \<lparr>trainId = ''B'', trackId = 0, actualArrival = Fin 13, delay = Fin 8\<rparr>,
         \<lparr>trainId = ''C'', trackId = 1, actualArrival = Fin 175, delay = Fin 1\<rparr>,
         \<lparr>trainId = ''D'', trackId = 1, actualArrival = Fin 1, delay = Fin 1\<rparr>]"
        "[\<lparr>idT = ''A'', scheduledArrival = 0, speed = 30, priority = High, lengthT = 200,
          duration = Some (Fin 10)\<rparr>,
         \<lparr>idT = ''B'', scheduledArrival = 5, speed = 30, priority = Medium, lengthT = 200,
          duration = Some (Fin 10)\<rparr>,
         \<lparr>idT = ''C'', scheduledArrival = 174, speed = 30, priority = Low, lengthT = 200,
          duration = Some (Fin 10)\<rparr>]"
        "\<lparr>sectionLength = 5, timeHorizon = 180, tracks = 3, maxTrainsPerTrack = 10,
         safetyHeadway = 3\<rparr>"]
  by (simp add: countedAssignments_def findTrain_def jsum_def)

section \<open>Disruptions\<close>

text \<open>
  Claim C8. For a delay disruption that names train \<open>i\<close> and carries
  \<open>delayMinutes = m \<ge> 0\<close>, \<open>applyDisruption\<close> returns the list in which every train
  with id \<open>i\<close> has its scheduled arrival increased by \<open>m\<close> and every other field as
  before, and every other train is as before. The source builds the result with
  \<open>map\<close> and an object spread and assigns to nothing of its input, which is why the
  function is a pure one here.
\<close>

theorem applyDisruption_delay:
  assumes "dtype d = Delay" and "dTrainId d = Some i" and "delayMinutes d = Some m" and "0 \<le> m"
  shows "applyDisruption trains d =
           map (\<lambda>t. if idT t = i then t\<lparr>scheduledArrival := scheduledArrival t + m\<rparr> else t) trains"
  using assms by (auto simp add: applyDisruption_def)

theorem applyDisruption_delay_witness:
  "applyDisruption
     [\<lparr>idT = ''T2'', scheduledArrival = 8, speed = 40, priority = Medium, lengthT = 300,
       duration = None\<rparr>,
      \<lparr>idT = ''T3'', scheduledArrival = 10, speed = 80, priority = High, lengthT = 220,
       duration = None\<rparr>]
     \<lparr>dtype = Delay, dTrainId = Some ''T3'', delayMinutes = Some 12, dTrackId = None\<rparr>
   = [\<lparr>idT = ''T2'', scheduledArrival = 8, speed = 40, priority = Medium, lengthT = 300,
       duration = None\<rparr>,
      \<lparr>idT = ''T3'', scheduledArrival = 22, speed = 80, priority = High, lengthT = 220,
       duration = None\<rparr>]"
  using applyDisruption_delay
    [of "\<lparr>dtype = Delay, dTrainId = Some ''T3'', delayMinutes = Some 12, dTrackId = None\<rparr>"
        "''T3''" 12
        "[\<lparr>idT = ''T2'', scheduledArrival = 8, speed = 40, priority = Medium, lengthT = 300,
           duration = None\<rparr>,
          \<lparr>idT = ''T3'', scheduledArrival = 10, speed = 80, priority = High, lengthT = 220,
           duration = None\<rparr>]"]
  by simp

text \<open>
  Claim C9. For a block-track disruption that names a track id \<open>k\<close>, whichever it
  is, \<open>applyDisruption\<close> returns the trains unchanged, and
  \<open>rescheduleWithDisruption\<close> computes \<open>before\<close> from the prepared trains with the
  config as given and \<open>after\<close> from the same prepared trains with the config whose
  \<open>tracks\<close> is one less and whose other fields are as given.
\<close>

theorem rescheduleWithDisruption_block_track:
  assumes "dtype d = BlockTrack" and "dTrackId d = Some k"
  shows "applyDisruption trains d = trains
    \<and> modifiedConfig config d = config\<lparr>tracks := tracks config - 1\<rparr>
    \<and> rescheduleWithDisruption trains config d =
          (case optimizedSchedule (prepareTrainsData trains config) config of
             Inl e \<Rightarrow> Inl e
           | Inr b \<Rightarrow>
               (case optimizedSchedule (prepareTrainsData trains config)
                       (config\<lparr>tracks := tracks config - 1\<rparr>) of
                  Inl e \<Rightarrow> Inl e
                | Inr a \<Rightarrow> Inr \<lparr>before = b, after = a\<rparr>))"
proof -
  have same: "applyDisruption trains d = trains"
    using assms by (cases "delayMinutes d") (simp_all add: applyDisruption_def)
  have cfg: "modifiedConfig config d = config\<lparr>tracks := tracks config - 1\<rparr>"
    using assms by (simp add: modifiedConfig_def)
  show ?thesis
    by (simp add: rescheduleWithDisruption_def same cfg split: sum.splits)
qed

theorem rescheduleWithDisruption_block_track_witness:
  "tracks (modifiedConfig
     \<lparr>sectionLength = 5, timeHorizon = 180, tracks = 3, maxTrainsPerTrack = 10,
      safetyHeadway = 3\<rparr>
     \<lparr>dtype = BlockTrack, dTrainId = None, delayMinutes = None, dTrackId = Some 0\<rparr>) = 2
   \<and> tracks (modifiedConfig
     \<lparr>sectionLength = 5, timeHorizon = 180, tracks = 3, maxTrainsPerTrack = 10,
      safetyHeadway = 3\<rparr>
     \<lparr>dtype = BlockTrack, dTrainId = None, delayMinutes = None, dTrackId = Some 2\<rparr>) = 2"
  using rescheduleWithDisruption_block_track
    [of "\<lparr>dtype = BlockTrack, dTrainId = None, delayMinutes = None, dTrackId = Some 0\<rparr>" 0
        "[]" "\<lparr>sectionLength = 5, timeHorizon = 180, tracks = 3, maxTrainsPerTrack = 10,
      safetyHeadway = 3\<rparr>"]
    rescheduleWithDisruption_block_track
    [of "\<lparr>dtype = BlockTrack, dTrainId = None, delayMinutes = None, dTrackId = Some 2\<rparr>" 2
        "[]" "\<lparr>sectionLength = 5, timeHorizon = 180, tracks = 3, maxTrainsPerTrack = 10,
      safetyHeadway = 3\<rparr>"]
  by simp

section \<open>Lookups, sorting and the local improver\<close>






















section \<open>Invariants of the greedy loop\<close>
























section \<open>Which trains are left out\<close>










section \<open>The improver changes nothing when durations are positive\<close>






















section \<open>Separation on a track\<close>









section \<open>The greedy choice of a track\<close>






























section \<open>The greedy scheduler on the documented example\<close>

text \<open>
  Claim C10. With one track, horizon 180 and headway 3, and trains A (scheduled
  arrival 0, duration 10, high priority) and B (scheduled arrival 5, duration 10,
  medium priority), \<open>greedySchedule\<close> puts A on track 0 at minute 0 with delay 0 and
  B on track 0 at minute 13 with delay 8; after A, track 0 is next free at minute 13.
  The fields the example leaves open are arbitrary.
\<close>

theorem greedySchedule_example:
  "\<exists>s. greedySchedule
          [\<lparr>idT = ''A'', scheduledArrival = 0, speed = vA, priority = High, lengthT = lA,
            duration = Some (Fin 10)\<rparr>,
           \<lparr>idT = ''B'', scheduledArrival = 5, speed = vB, priority = Medium, lengthT = lB,
            duration = Some (Fin 10)\<rparr>]
          \<lparr>sectionLength = sl, timeHorizon = 180, tracks = 1, maxTrainsPerTrack = m,
           safetyHeadway = 3\<rparr> = Inr s
      \<and> assignments s =
          [\<lparr>trainId = ''A'', trackId = 0, actualArrival = Fin 0, delay = Fin 0\<rparr>,
           \<lparr>trainId = ''B'', trackId = 0, actualArrival = Fin 13, delay = Fin 8\<rparr>]
      \<and> fst (greedyLoop
            \<lparr>sectionLength = sl, timeHorizon = 180, tracks = 1, maxTrainsPerTrack = m,
             safetyHeadway = 3\<rparr>
            [\<lparr>idT = ''A'', scheduledArrival = 0, speed = vA, priority = High, lengthT = lA,
              duration = Some (Fin 10)\<rparr>]
            (greedyInit \<lparr>sectionLength = sl, timeHorizon = 180, tracks = 1, maxTrainsPerTrack = m,
             safetyHeadway = 3\<rparr>)) = [Fin 13]"
  by (simp add: greedySchedule_def computeScheduleMetrics_assignments sortTrains_def
      compareTrains_def greedyInit_def greedyStep_def chooseTrack_def candidateStart_def
      nextFreeAt_def setNextFree_def jsub_def)

end
